theory Spec2Isabelle
  imports Main
begin

section \<open>Values, parameters and dialects\<close>

text \<open>
  A non-nil Go \<^verbatim>\<open>interface{}\<close> payload. The constructors are the dynamic types that
  \<^verbatim>\<open>visitSlice\<close> tells apart; a nil interface is \<open>None\<close> of \<open>val option\<close>.
  Floating-point elements are carried as the text that \<^verbatim>\<open>strconv.FormatFloat\<close> prints for
  them (floating point itself is not modelled). \<open>VSequence\<close> is any other slice or array
  (or pointer to one) that reflection can index; its elements are the interface values
  \<^verbatim>\<open>rv.Index(i).Interface()\<close>.
\<close>

datatype val =
    VInt int
  | VString string
  | VScalar string
  | VIntSlice "int list"
  | VInt64Slice "int list"
  | VFloat32Slice "string list"
  | VFloat64Slice "string list"
  | VStringSlice "string list"
  | VInterfaceSlice "val option list"
  | VSequence "val option list"

text \<open>\<^verbatim>\<open>ansi.DirIn\<close>, \<^verbatim>\<open>ansi.DirOut\<close>, \<^verbatim>\<open>ansi.DirInOut\<close>, \<^verbatim>\<open>ansi.DirReturn\<close>.\<close>

datatype dir = DirIn | DirOut | DirInOut | DirReturn

record parameter =
  Parameter_Name :: string
  Parameter_Value :: "val option"
  Parameter_Dir :: dir

text \<open>
  Modelled from the spec: the declaration of \<^verbatim>\<open>Parameter.IsOut\<close> is not part of the
  compiler source; the spec lists the output variables as the \<^verbatim>\<open>Out\<close>/\<^verbatim>\<open>InOut\<close> parameters.
\<close>

definition IsOut :: "parameter \<Rightarrow> bool" where
  "IsOut p = (Parameter_Dir p = DirOut \<or> Parameter_Dir p = DirInOut)"

text \<open>
  Modelled from the spec: the declaration of \<^verbatim>\<open>Text\<close> is not part of the compiler source.
  A template text is a raw SQL string plus a name-to-parameter map, kept as an association
  list; \<^verbatim>\<open>FindParameter\<close> looks a name up in it.
\<close>

record Text =
  Text_Sql :: string
  Text_Parameters :: "(string \<times> parameter) list"

definition FindParameter :: "Text \<Rightarrow> string \<Rightarrow> parameter option" where
  "FindParameter t name = map_of (Text_Parameters t) name"

text \<open>
  Modelled from the spec: the declaration of \<^verbatim>\<open>Procedure\<close> is not part of the compiler
  source. \<open>Procedure_ReturnName\<close> is what \<^verbatim>\<open>sp.ReturnParameterName()\<close> returns: the designated
  return-parameter name, empty when none is designated.
\<close>

record procedure =
  Procedure_Name :: string
  Procedure_Parameters :: "parameter list"
  Procedure_ReturnName :: string

text \<open>The part of the \<^verbatim>\<open>Dialecter\<close> interface that the compilers call.\<close>

record dialecter =
  SupportNamedParameter :: bool
  SupportIndexedParameter :: bool
  ParameterPlaceHolder :: string
  Quote :: "string \<Rightarrow> string"

definition AnsiDialecter :: dialecter where
  "AnsiDialecter = \<lparr>SupportNamedParameter = False, SupportIndexedParameter = False,
     ParameterPlaceHolder = '' ? '', Quote = (\<lambda>s. [CHR 0x27] @ s @ [CHR 0x27])\<rparr>"

definition MysqlDialecter :: dialecter where
  "MysqlDialecter = AnsiDialecter"

definition PostgreSQLDialecter :: dialecter where
  "PostgreSQLDialecter = AnsiDialecter\<lparr>SupportIndexedParameter := True,
     ParameterPlaceHolder := ''$''\<rparr>"

text \<open>
  The placeholder mode of \<^verbatim>\<open>compileText\<close> and \<^verbatim>\<open>writeValue\<close>:
  \<^verbatim>\<open>switch { case named: mode = 1; case indexed: mode = 2 }\<close>, 0 otherwise.
\<close>

definition mode_of :: "dialecter \<Rightarrow> nat" where
  "mode_of d = (if SupportNamedParameter d then 1 else if SupportIndexedParameter d then 2 else 0)"

section \<open>Library functions of Go used by the compilers\<close>

text \<open>\<^verbatim>\<open>strconv.Itoa\<close>: the decimal text of an integer.\<close>

fun decimal :: "nat \<Rightarrow> string" where
  "decimal n = (if n < 10 then [''0123456789'' ! n]
                else decimal (n div 10) @ [''0123456789'' ! (n mod 10)])"

declare decimal.simps [simp del]

definition Itoa :: "int \<Rightarrow> string" where
  "Itoa i = (if i < 0 then CHR ''-'' # decimal (nat (- i)) else decimal (nat i))"

text \<open>\<^verbatim>\<open>bytes.IndexByte\<close>: the index of the first occurrence of a byte, or \<open>-1\<close>.\<close>

definition IndexByte :: "string \<Rightarrow> char \<Rightarrow> int" where
  "IndexByte b c = (if c \<in> set b then int (length (takeWhile (\<lambda>x. x \<noteq> c) b)) else - 1)"

text \<open>
  \<^verbatim>\<open>bytes.TrimSpace\<close> removes the leading and trailing runes for which
  \<^verbatim>\<open>unicode.IsSpace\<close> holds. On the bytes of a string these are the six ASCII white-space
  bytes and the UTF-8 encodings of U+0085, U+00A0, U+1680, U+2000 to U+200A, U+2028,
  U+2029, U+202F, U+205F and U+3000.
\<close>

definition spaceRunes :: "string list" where
  "spaceRunes =
    [[CHR 0x09], [CHR 0x0A], [CHR 0x0B], [CHR 0x0C], [CHR 0x0D], [CHR 0x20],
     [CHR 0xC2, CHR 0x85], [CHR 0xC2, CHR 0xA0], [CHR 0xE1, CHR 0x9A, CHR 0x80],
     [CHR 0xE2, CHR 0x80, CHR 0x80], [CHR 0xE2, CHR 0x80, CHR 0x81],
     [CHR 0xE2, CHR 0x80, CHR 0x82], [CHR 0xE2, CHR 0x80, CHR 0x83],
     [CHR 0xE2, CHR 0x80, CHR 0x84], [CHR 0xE2, CHR 0x80, CHR 0x85],
     [CHR 0xE2, CHR 0x80, CHR 0x86], [CHR 0xE2, CHR 0x80, CHR 0x87],
     [CHR 0xE2, CHR 0x80, CHR 0x88], [CHR 0xE2, CHR 0x80, CHR 0x89],
     [CHR 0xE2, CHR 0x80, CHR 0x8A], [CHR 0xE2, CHR 0x80, CHR 0xA8],
     [CHR 0xE2, CHR 0x80, CHR 0xA9], [CHR 0xE2, CHR 0x80, CHR 0xAF],
     [CHR 0xE2, CHR 0x81, CHR 0x9F], [CHR 0xE3, CHR 0x80, CHR 0x80]]"

text \<open>The width in bytes of the white-space rune a string starts with, 0 when it starts
  with none.\<close>

definition leadingSpace :: "string \<Rightarrow> nat" where
  "leadingSpace s =
     (case find (\<lambda>u. take (length u) s = u) spaceRunes of None \<Rightarrow> 0 | Some u \<Rightarrow> length u)"

definition trailingSpace :: "string \<Rightarrow> nat" where
  "trailingSpace s =
     (case find (\<lambda>u. length u \<le> length s \<and> drop (length s - length u) s = u) spaceRunes of
        None \<Rightarrow> 0 | Some u \<Rightarrow> length u)"

lemma leadingSpace_le: "leadingSpace s \<le> length s"
proof (cases "find (\<lambda>u. take (length u) s = u) spaceRunes")
  case None
  then show ?thesis by (simp add: leadingSpace_def)
next
  case (Some u)
  then have "take (length u) s = u" by (auto simp: find_Some_iff)
  then have "length (take (length u) s) = length u" by simp
  then have "length u \<le> length s" by simp
  with Some show ?thesis by (simp add: leadingSpace_def)
qed

lemma trailingSpace_le: "trailingSpace s \<le> length s"
  by (auto simp: trailingSpace_def find_Some_iff split: option.splits)

function TrimLeft :: "string \<Rightarrow> string" where
  "TrimLeft s = (if leadingSpace s = 0 then s else TrimLeft (drop (leadingSpace s) s))"
  by pat_completeness auto
termination
proof (relation "measure length")
  show "wf (measure length)" by simp
next
  fix s :: string
  assume "leadingSpace s \<noteq> 0"
  moreover have "leadingSpace s \<le> length s" by (rule leadingSpace_le)
  ultimately show "(drop (leadingSpace s) s, s) \<in> measure length" by simp
qed

function TrimRight :: "string \<Rightarrow> string" where
  "TrimRight s =
     (if trailingSpace s = 0 then s else TrimRight (take (length s - trailingSpace s) s))"
  by pat_completeness auto
termination
proof (relation "measure length")
  show "wf (measure length)" by simp
next
  fix s :: string
  assume "trailingSpace s \<noteq> 0"
  moreover have "trailingSpace s \<le> length s" by (rule trailingSpace_le)
  ultimately show "(take (length s - trailingSpace s) s, s) \<in> measure length" by simp
qed

declare TrimLeft.simps [simp del] TrimRight.simps [simp del]

definition TrimSpace :: "string \<Rightarrow> string" where
  "TrimSpace s = TrimRight (TrimLeft s)"

section \<open>Results\<close>

text \<open>
  The kinds that \<^verbatim>\<open>Expression.Node()\<close> answers. \<open>NodeOther\<close> stands for the kinds that
  \<^verbatim>\<open>visitExp\<close> has no case for (\<^verbatim>\<open>Conditions\<close>, \<^verbatim>\<open>Field\<close> and the like).
\<close>

datatype node =
    NodeZero | NodeText | NodeProcedure | NodeParameter | NodeOutput
  | NodeNull | NodeSql | NodeOperator
  | NodeQuery | NodeUpdate | NodeInsert | NodeDelete
  | NodeValue | NodeTable | NodeColumn | NodeCondition | NodeAggregate
  | NodeSelect | NodeFrom | NodeJoin | NodeWhere | NodeGroupBy | NodeHaving | NodeOrderBy
  | NodeOther

text \<open>
  The errors that the compilers return, each standing for the message of its
  \<^verbatim>\<open>errors.New\<close>:
  \<^item> \<open>ExpressionIsNil\<close>: "compile expression is nil";
  \<^item> \<open>DoesSupportType k\<close>: "compile expression does support type:" followed by the kind
    (the message of \<^verbatim>\<open>AnsiDriver.Compile\<close> for a kind it does not dispatch);
  \<^item> \<open>DoesntSupportExpressionType k\<close>: "doesn't support expression type:" followed by the kind;
  \<^item> \<open>TextIsNilOrEmpty\<close>: "text is nil or sql of text is empty";
  \<^item> \<open>CanNotFindParameter name\<close>: "text can not find parameter:" followed by the name;
  \<^item> \<open>TextSqlFormatInvalid\<close>: "text sql format is invalid";
  \<^item> \<open>ProcedureIsNilOrEmpty\<close>: "procedure is nil or name of procedure is empty".
\<close>

datatype error =
    ExpressionIsNil
  | DoesSupportType node
  | DoesntSupportExpressionType node
  | TextIsNilOrEmpty
  | CanNotFindParameter string
  | TextSqlFormatInvalid
  | ProcedureIsNilOrEmpty

text \<open>
  The panics of the statement compiler:
  \<^item> \<open>DoesntSupportThisExpressionType k\<close>: \<^verbatim>\<open>panic("doesn't support this expression type:" ...)\<close>;
  \<^item> \<open>ShouldBeRawSqler k\<close>: \<^verbatim>\<open>panic("should be a RawSqler:" ...)\<close>;
  \<^item> \<open>NilDereference\<close>: the run-time panic of a method call or field access through nil.
  A compilation ends in an error that it returns, in a panic, or in a result.
\<close>

datatype panic =
    DoesntSupportThisExpressionType node
  | ShouldBeRawSqler node
  | NilDereference

datatype failure = Error error | Panic panic

type_synonym compiled = "error + (string \<times> val option list)"

section \<open>Template text compiler\<close>

text \<open>
  The scanning loop of \<^verbatim>\<open>compileText\<close>. \<open>state\<close> is 0 outside braces and 1 inside,
  \<open>b\<close> the bytes still to scan, \<open>buffer\<close> the text written so far, \<open>paramters\<close> the
  arguments collected so far and \<open>paraIndex\<close> the next index of the indexed mode.
\<close>

function compileText_loop ::
  "dialecter \<Rightarrow> Text \<Rightarrow> nat \<Rightarrow> string \<Rightarrow> string \<Rightarrow> val option list \<Rightarrow> int \<Rightarrow> compiled" where
  "compileText_loop d t state b buffer paramters paraIndex =
     (if state = 0 then
        (let index = IndexByte b CHR ''{'' in
         if index \<ge> 0 then
           compileText_loop d t 1 (drop (nat index + 1) b) (buffer @ take (nat index) b)
             paramters paraIndex
         else Inr (buffer @ b, paramters))
      else
        (let index = IndexByte b CHR ''}'' in
         if index > 0 then
           (let name = TrimSpace (take (nat index) b) in
            case FindParameter t name of
              None \<Rightarrow> Inl (CanNotFindParameter name)
            | Some p \<Rightarrow>
                (if mode_of d = 0 then
                   compileText_loop d t 0 (drop (nat index + 1) b)
                     (buffer @ ParameterPlaceHolder d)
                     (paramters @ [Parameter_Value p]) paraIndex
                 else if mode_of d = 1 then
                   compileText_loop d t 0 (drop (nat index + 1) b)
                     (buffer @ ParameterPlaceHolder d @ name)
                     (paramters @ [Parameter_Value p]) paraIndex
                 else
                   compileText_loop d t 0 (drop (nat index + 1) b)
                     (buffer @ ParameterPlaceHolder d @ Itoa paraIndex)
                     (paramters @ [Parameter_Value p]) (paraIndex + 1)))
         else Inl TextSqlFormatInvalid))"
  by pat_completeness auto
termination
proof (relation "measure (\<lambda>(d, t, state, b, buffer, paramters, paraIndex). length b)")
  show "wf (measure (\<lambda>(d, t, state, b, buffer, paramters, paraIndex). length b))" by simp
qed (auto simp: IndexByte_def split: if_splits dest: length_pos_if_in_set)

declare compileText_loop.simps [simp del]

definition compileText :: "dialecter \<Rightarrow> Text option \<Rightarrow> compiled" where
  "compileText d text =
     (case text of
        None \<Rightarrow> Inl TextIsNilOrEmpty
      | Some t \<Rightarrow>
          if Text_Sql t = [] then Inl TextIsNilOrEmpty
          else if length (Text_Parameters t) = 0 then Inr (Text_Sql t, [])
          else compileText_loop d t 0 (Text_Sql t) [] [] 1)"

section \<open>Procedure call compiler\<close>

text \<open>The three loops of \<^verbatim>\<open>compileProcedure\<close> over the parameter list.\<close>

fun procedure_sets :: "parameter list \<Rightarrow> string \<times> val option list" where
  "procedure_sets [] = ([], [])"
| "procedure_sets (p # ps) =
     (let (text, args) = procedure_sets ps in
      if Parameter_Dir p = DirInOut
      then (''SET @'' @ Parameter_Name p @ '' = ?; '' @ [CHR 0x0A] @ text, Parameter_Value p # args)
      else (text, args))"

text \<open>\<open>i\<close> is the index of the head of the list in the whole parameter list.\<close>

fun procedure_call :: "nat \<Rightarrow> parameter list \<Rightarrow> string \<times> val option list \<times> bool" where
  "procedure_call i [] = ([], [], False)"
| "procedure_call i (p # ps) =
     (let (text, args, hasOut) = procedure_call (i + 1) ps;
          sep = (if i > 0 then '', '' else []) in
      if Parameter_Dir p = DirIn then (sep @ ''?'' @ text, Parameter_Value p # args, hasOut)
      else if Parameter_Dir p = DirInOut then (sep @ ''@'' @ Parameter_Name p @ text, args, True)
      else if Parameter_Dir p = DirOut then (sep @ ''@'' @ Parameter_Name p @ text, args, True)
      else (sep @ text, args, hasOut))"

fun procedure_select :: "bool \<Rightarrow> parameter list \<Rightarrow> string" where
  "procedure_select delimit [] = []"
| "procedure_select delimit (p # ps) =
     (if IsOut p \<or> Parameter_Dir p = DirReturn
      then (if delimit then '', '' else []) @ ''@'' @ Parameter_Name p @ procedure_select True ps
      else procedure_select delimit ps)"

definition compileProcedure :: "procedure option \<Rightarrow> compiled" where
  "compileProcedure sp =
     (case sp of
        None \<Rightarrow> Inl ProcedureIsNilOrEmpty
      | Some sp \<Rightarrow>
          if Procedure_Name sp = [] then Inl ProcedureIsNilOrEmpty
          else
            (let returnName = Procedure_ReturnName sp;
                 (sets, args1) = procedure_sets (Procedure_Parameters sp);
                 (call, args2, hasOut) = procedure_call 0 (Procedure_Parameters sp)
             in Inr (sets
                  @ (if returnName = [] then ''CALL '' else ''SET @'' @ returnName)
                  @ Procedure_Name sp @ '' ( '' @ call @ '' );''
                  @ (if hasOut \<or> returnName \<noteq> []
                     then [CHR 0x0A] @ ''SELECT '' @ procedure_select False (Procedure_Parameters sp)
                            @ ''; ''
                     else []),
                  args1 @ args2)))"

section \<open>The template language, as the specification describes it\<close>

text \<open>
  The placeholder text of the three modes in the specification's words: the dialect's
  token alone, the token followed by the parameter's name when the dialect supports
  named parameters, the token followed by the running index when it supports indexed ones.
\<close>

definition placeholder_text :: "dialecter \<Rightarrow> int \<Rightarrow> string \<Rightarrow> string" where
  "placeholder_text d i name =
     ParameterPlaceHolder d @
       (if SupportNamedParameter d then name
        else if SupportIndexedParameter d then Itoa i else [])"

text \<open>
  A template seen as a sequence of pieces, each a literal text followed by one placeholder
  \<open>{n}\<close>. \<open>template_source\<close> is the text of the pieces; a piece \<open>resolves\<close> when its literal
  holds no opening brace, the text between its braces is not empty and holds no closing
  brace, and the trimmed name is bound. \<open>rendered\<close> is the text expected for the pieces and
  \<open>bound_values\<close> the values their names are bound to.
\<close>

type_synonym piece = "string \<times> string"

definition template_source :: "piece list \<Rightarrow> string" where
  "template_source ps = concat (map (\<lambda>(l, n). l @ CHR ''{'' # n @ [CHR ''}'']) ps)"

definition resolves :: "Text \<Rightarrow> piece \<Rightarrow> bool" where
  "resolves t p =
     (case p of (l, n) \<Rightarrow>
        CHR ''{'' \<notin> set l \<and> CHR ''}'' \<notin> set n \<and> n \<noteq> [] \<and> FindParameter t (TrimSpace n) \<noteq> None)"

fun rendered :: "dialecter \<Rightarrow> int \<Rightarrow> piece list \<Rightarrow> string" where
  "rendered d i [] = []"
| "rendered d i ((l, n) # ps) = l @ placeholder_text d i (TrimSpace n) @ rendered d (i + 1) ps"

definition bound_values :: "Text \<Rightarrow> piece list \<Rightarrow> val option list" where
  "bound_values t ps =
     map (\<lambda>(l, n). case FindParameter t (TrimSpace n) of None \<Rightarrow> None | Some p \<Rightarrow> Parameter_Value p) ps"

text \<open>The template of the specification's example, with \<open>p\<close> bound to 1.\<close>

definition example_text :: Text where
  "example_text = \<lparr>Text_Sql = ''select * from t where c > {p}'',
     Text_Parameters = [(''p'', \<lparr>Parameter_Name = ''p'', Parameter_Value = Some (VInt 1),
       Parameter_Dir = DirIn\<rparr>)]\<rparr>"

section \<open>Expression trees\<close>

text \<open>
  Modelled from the spec: the declarations of the expression nodes are not part of the
  compiler source. Each node type has the fields that the compiler reads, in the order
  in which the compiler reads them; a field that is a pointer or an interface is an
  \<open>option\<close>, \<open>None\<close> being nil. The types are written over the type \<open>'e\<close> of expressions.
  \<^item> \<open>Condition\<close>: \<^verbatim>\<open>Left\<close>, \<^verbatim>\<open>Op\<close>, \<^verbatim>\<open>Right\<close>.
  \<^item> \<open>Aggregate\<close>: \<^verbatim>\<open>Name\<close> (its \<^verbatim>\<open>String()\<close> is the name), \<^verbatim>\<open>Exp\<close>.
  \<^item> \<open>Field\<close>: \<^verbatim>\<open>Exp\<close>, \<^verbatim>\<open>Alias\<close>. \<open>Select\<close>: \<^verbatim>\<open>Fields\<close>.
  \<^item> \<open>Conditions\<close>: the sequence \<^verbatim>\<open>Conditions\<close>. \<open>Where\<close> and \<open>Having\<close>: their \<^verbatim>\<open>Conditions\<close>.
  \<^item> \<open>Join\<close>: the text of \<^verbatim>\<open>JoinType.String()\<close>, \<^verbatim>\<open>Right\<close>, \<^verbatim>\<open>Conditions\<close>.
  \<^item> \<open>From\<close>: \<^verbatim>\<open>Table\<close>, \<^verbatim>\<open>Tables\<close>, \<^verbatim>\<open>Joins\<close>.
  \<^item> \<open>GroupBy\<close>: \<^verbatim>\<open>Fields\<close>. \<open>OrderBy\<close>: \<^verbatim>\<open>Fields\<close>, each an \<^verbatim>\<open>Exp\<close> and the text of
    \<^verbatim>\<open>Direction.String()\<close>.
  \<^item> \<open>Sets\<close>: the column and value pairs of an insert or update.
  \<^item> \<open>Query\<close>: \<^verbatim>\<open>IsDistinct\<close>, \<^verbatim>\<open>Select\<close>, \<^verbatim>\<open>From\<close>, \<^verbatim>\<open>Where\<close>, \<^verbatim>\<open>GroupBy\<close>, \<^verbatim>\<open>Having\<close>,
    \<^verbatim>\<open>OrderBy\<close>, \<^verbatim>\<open>Offset\<close>, \<^verbatim>\<open>Count\<close>.
  \<^item> \<open>Insert\<close>: \<^verbatim>\<open>Table\<close>, \<^verbatim>\<open>Sets\<close>. \<open>Update\<close>: \<^verbatim>\<open>Table\<close>, \<^verbatim>\<open>Sets\<close>, \<^verbatim>\<open>Where\<close>, \<^verbatim>\<open>OrderBy\<close>,
    \<^verbatim>\<open>Count\<close>. \<open>Delete\<close>: \<^verbatim>\<open>Table\<close>, \<^verbatim>\<open>Where\<close>, \<^verbatim>\<open>OrderBy\<close>, \<^verbatim>\<open>Count\<close>.
  The table of a statement and the items of an order-by are taken to be present (the
  compiler reads their fields without a nil check), and an interface that holds a typed
  nil pointer is not modelled.
\<close>

datatype operator = In | NotIn | Operator string

record Table =
  Table_Name :: string
  Table_Alias :: string

type_synonym 'e Condition = "'e option \<times> operator \<times> 'e option"
type_synonym 'e Aggregate = "string \<times> 'e option"
type_synonym 'e Field = "'e option \<times> string"
type_synonym 'e Select = "'e Field option list"
type_synonym 'e Conditions = "'e option list"
type_synonym 'e Join = "string \<times> Table option \<times> 'e Conditions option"
type_synonym 'e From = "Table option \<times> Table option list \<times> 'e Join option list"
type_synonym 'e Where = "'e Conditions option"
type_synonym 'e Having = "'e Conditions option"
type_synonym 'e GroupBy = "'e option list"
type_synonym 'e OrderBy = "('e option \<times> string) list"
type_synonym 'e Sets = "(string \<times> 'e option) list"
type_synonym 'e Query = "bool \<times> 'e Select option \<times> 'e From option \<times> 'e Where option \<times>
  'e GroupBy option \<times> 'e Having option \<times> 'e OrderBy option \<times> int \<times> int"
type_synonym 'e Insert = "Table \<times> 'e Sets"
type_synonym 'e Update = "Table \<times> 'e Sets \<times> 'e Where option \<times> 'e OrderBy option \<times> int"
type_synonym 'e Delete = "Table \<times> 'e Where option \<times> 'e OrderBy option \<times> int"

text \<open>
  The expressions. \<open>NullE\<close>, \<open>SqlE\<close> and \<open>OperatorE\<close> are the nodes of the kinds
  \<^verbatim>\<open>NodeNull\<close>, \<^verbatim>\<open>NodeSql\<close> and \<^verbatim>\<open>NodeOperator\<close>, each with the text of its \<^verbatim>\<open>ToSql()\<close>,
  \<open>None\<close> when it is no \<^verbatim>\<open>RawSqler\<close>. \<open>OpenParentheses\<close> and \<open>CloseParentheses\<close> are the two markers that
  \<^verbatim>\<open>visitConditions\<close> compares items with. \<open>ValueE v\<close> is a \<^verbatim>\<open>Value\<close> with payload \<open>v\<close>,
  \<open>ColumnE c\<close> a column with the text \<open>c\<close> of its \<^verbatim>\<open>String()\<close>. \<open>OtherE\<close> is an expression of
  a type that \<^verbatim>\<open>visitExp\<close> has no case for.
\<close>

datatype Expression =
    Zero
  | TextE Text
  | ProcedureE procedure
  | ParameterE parameter
  | OutputE
  | NullE "string option"
  | SqlE "string option"
  | OperatorE "string option"
  | OpenParentheses
  | CloseParentheses
  | QueryE "Expression Query"
  | InsertE "Expression Insert"
  | UpdateE "Expression Update"
  | DeleteE "Expression Delete"
  | ValueE "val option"
  | TableE Table
  | ColumnE string
  | ConditionE "Expression Condition"
  | AggregateE "Expression Aggregate"
  | SelectE "Expression Select"
  | FromE "Expression From"
  | JoinE "Expression Join"
  | WhereE "Expression Where"
  | GroupByE "Expression GroupBy"
  | HavingE "Expression Having"
  | OrderByE "Expression OrderBy"
  | OtherE

text \<open>
  Modelled from the spec: every node answers what kind it is. The two markers are taken
  to be raw SQL nodes.
\<close>

fun Node :: "Expression \<Rightarrow> node" where
  "Node Zero = NodeZero"
| "Node (TextE t) = NodeText"
| "Node (ProcedureE p) = NodeProcedure"
| "Node (ParameterE p) = NodeParameter"
| "Node OutputE = NodeOutput"
| "Node (NullE sql) = NodeNull"
| "Node (SqlE sql) = NodeSql"
| "Node (OperatorE sql) = NodeOperator"
| "Node OpenParentheses = NodeSql"
| "Node CloseParentheses = NodeSql"
| "Node (QueryE q) = NodeQuery"
| "Node (InsertE i) = NodeInsert"
| "Node (UpdateE u) = NodeUpdate"
| "Node (DeleteE d) = NodeDelete"
| "Node (ValueE v) = NodeValue"
| "Node (TableE t) = NodeTable"
| "Node (ColumnE c) = NodeColumn"
| "Node (ConditionE c) = NodeCondition"
| "Node (AggregateE a) = NodeAggregate"
| "Node (SelectE s) = NodeSelect"
| "Node (FromE f) = NodeFrom"
| "Node (JoinE j) = NodeJoin"
| "Node (WhereE w) = NodeWhere"
| "Node (GroupByE g) = NodeGroupBy"
| "Node (HavingE h) = NodeHaving"
| "Node (OrderByE ob) = NodeOrderBy"
| "Node OtherE = NodeOther"

text \<open>
  Modelled from the spec: \<^verbatim>\<open>Conditions.isEmpty\<close> is declared outside the compiler source;
  a condition sequence is empty when it is nil or has no element.
\<close>

definition isEmpty :: "'e Conditions option \<Rightarrow> bool" where
  "isEmpty c = (case c of None \<Rightarrow> True | Some items \<Rightarrow> length items = 0)"

section \<open>Keywords and the statement writer\<close>

text \<open>
  Modelled from the spec: the constants of package \<^verbatim>\<open>ansi\<close>, the \<^verbatim>\<open>sqlWriter\<close> and the
  \<^verbatim>\<open>String()\<close> of the operators are declared outside the compiler source. The compiler is
  modelled for any texts of them: a parameter \<open>ansi\<close> gives the text of every keyword.
  \<open>WComma\<close>, \<open>WBlank\<close>, \<open>WLineBreak\<close>, \<open>WOpenParentheses\<close> and \<open>WCloseParentheses\<close> are what the
  writer's methods of these names write; \<open>InString\<close> and \<open>NotInString\<close> are the
  \<^verbatim>\<open>String()\<close> of the operators \<^verbatim>\<open>In\<close> and \<^verbatim>\<open>NotIn\<close>; \<open>OpenParenthesesSql\<close> and
  \<open>CloseParenthesesSql\<close> are the \<^verbatim>\<open>ToSql()\<close> of the two markers.
\<close>

datatype keyword =
    Null | As | On | From | Where | Having | GroupBy | OrderBy | Select | Distinct
  | WildcardAll | Limit | StatementSplit | InsertInto | Values | Update | Set | Delete
  | Equals | Blank | LineBreak
  | WComma | WBlank | WLineBreak | WOpenParentheses | WCloseParentheses
  | InString | NotInString | OpenParenthesesSql | CloseParenthesesSql

type_synonym ansi = "keyword \<Rightarrow> string"

text \<open>The texts that the specification names, for concrete statements.\<close>

fun spec_ansi :: ansi where
  "spec_ansi Null = ''NULL''"
| "spec_ansi As = ''AS''"
| "spec_ansi On = ''ON''"
| "spec_ansi From = ''FROM''"
| "spec_ansi Where = ''WHERE''"
| "spec_ansi Having = ''HAVING''"
| "spec_ansi GroupBy = ''GROUP BY''"
| "spec_ansi OrderBy = ''ORDER BY''"
| "spec_ansi Select = ''SELECT''"
| "spec_ansi Distinct = ''DISTINCT''"
| "spec_ansi WildcardAll = ''*''"
| "spec_ansi Limit = ''LIMIT''"
| "spec_ansi StatementSplit = '';''"
| "spec_ansi InsertInto = ''INSERT INTO''"
| "spec_ansi Values = ''VALUES''"
| "spec_ansi Update = ''UPDATE''"
| "spec_ansi Set = ''SET''"
| "spec_ansi Delete = ''DELETE''"
| "spec_ansi Equals = ''=''"
| "spec_ansi Blank = '' ''"
| "spec_ansi LineBreak = [CHR 0x0A]"
| "spec_ansi WComma = '',''"
| "spec_ansi WBlank = '' ''"
| "spec_ansi WLineBreak = [CHR 0x0A]"
| "spec_ansi WOpenParentheses = ''(''"
| "spec_ansi WCloseParentheses = '')''"
| "spec_ansi InString = ''IN''"
| "spec_ansi NotInString = ''NOT IN''"
| "spec_ansi OpenParenthesesSql = ''(''"
| "spec_ansi CloseParenthesesSql = '')''"

fun Operator_String :: "ansi \<Rightarrow> operator \<Rightarrow> string" where
  "Operator_String ansi In = ansi InString"
| "Operator_String ansi NotIn = ansi NotInString"
| "Operator_String ansi (Operator s) = s"

text \<open>The fields of \<^verbatim>\<open>StatementCompiler\<close> that the compiler reads.\<close>

record StatementCompiler =
  sc_Dialecter :: dialecter
  sc_w :: string
  sc_args :: "val option list"
  sc_paraIndex :: int
  sc_placeHolder :: string

definition NewStatementCompiler :: "dialecter \<Rightarrow> StatementCompiler" where
  "NewStatementCompiler d =
     \<lparr>sc_Dialecter = d, sc_w = [], sc_args = [], sc_paraIndex = 0, sc_placeHolder = []\<rparr>"

text \<open>
  A method of the compiler takes the compiler's state to the state it leaves, or
  panics. \<open>run\<close> is a sequence of statements, \<open>skip\<close> a \<^verbatim>\<open>return\<close> without effect,
  \<open>when\<close> an \<^verbatim>\<open>if\<close> without \<^verbatim>\<open>else\<close>, and \<open>separated\<close> the loops that write a separator
  before every item but the first.
\<close>

type_synonym action = "StatementCompiler \<Rightarrow> panic + StatementCompiler"

definition skip :: action where
  "skip s = Inr s"

definition raise :: "panic \<Rightarrow> action" where
  "raise p s = Inl p"

fun run :: "action list \<Rightarrow> action" where
  "run [] s = Inr s"
| "run (a # as) s = (case a s of Inl p \<Rightarrow> Inl p | Inr s' \<Rightarrow> run as s')"

definition "when" :: "bool \<Rightarrow> action \<Rightarrow> action" where
  "when c a = (if c then a else skip)"

fun separated :: "action \<Rightarrow> action list \<Rightarrow> action list" where
  "separated sep [] = []"
| "separated sep [a] = [a]"
| "separated sep (a # b # bs) = a # sep # separated sep (b # bs)"

text \<open>
  Modelled from the spec: the statement writer is an append-only text accumulator.
  \<^verbatim>\<open>Print\<close> writes its arguments one after the other (they are all strings), and
  \<^verbatim>\<open>PrintSplit\<close> writes them with the separator between them.
\<close>

definition WriteString :: "string \<Rightarrow> action" where
  "WriteString x s = Inr (s\<lparr>sc_w := sc_w s @ x\<rparr>)"

definition Print :: "string list \<Rightarrow> action" where
  "Print xs = WriteString (concat xs)"

fun joined :: "string \<Rightarrow> string list \<Rightarrow> string" where
  "joined split [] = []"
| "joined split [x] = x"
| "joined split (x # y # ys) = x @ split @ joined split (y # ys)"

definition PrintSplit :: "string \<Rightarrow> string list \<Rightarrow> action" where
  "PrintSplit split xs = WriteString (joined split xs)"

definition Comma :: "ansi \<Rightarrow> action" where
  "Comma ansi = WriteString (ansi WComma)"

definition w_Blank :: "ansi \<Rightarrow> action" where
  "w_Blank ansi = WriteString (ansi WBlank)"

definition w_LineBreak :: "ansi \<Rightarrow> action" where
  "w_LineBreak ansi = WriteString (ansi WLineBreak)"

definition w_OpenParentheses :: "ansi \<Rightarrow> action" where
  "w_OpenParentheses ansi = WriteString (ansi WOpenParentheses)"

definition w_CloseParentheses :: "ansi \<Rightarrow> action" where
  "w_CloseParentheses ansi = WriteString (ansi WCloseParentheses)"

section \<open>Statement compiler\<close>

definition writeQuote :: "string \<Rightarrow> action" where
  "writeQuote x s = WriteString (Quote (sc_Dialecter s) x) s"

definition writeValue :: "ansi \<Rightarrow> val option \<Rightarrow> action" where
  "writeValue ansi v s =
     (case v of
        None \<Rightarrow> WriteString (ansi Null) s
      | Some x \<Rightarrow>
          (let mode = mode_of (sc_Dialecter s); p = sc_placeHolder s in
           if mode = 0 then
             Inr (s\<lparr>sc_w := sc_w s @ p, sc_args := sc_args s @ [Some x]\<rparr>)
           else if mode = 1 then
             Inr (s\<lparr>sc_paraIndex := sc_paraIndex s + 1,
                    sc_w := sc_w s @ p @ Itoa (sc_paraIndex s + 1),
                    sc_args := sc_args s @ [Some x]\<rparr>)
           else
             Inr (s\<lparr>sc_paraIndex := sc_paraIndex s + 1,
                    sc_w := sc_w s @ p @ Itoa (sc_paraIndex s + 1),
                    sc_args := sc_args s @ [Some x]\<rparr>)))"

definition visitValue :: "ansi \<Rightarrow> val option \<Rightarrow> action" where
  "visitValue ansi v = (case v of None \<Rightarrow> WriteString (ansi Null) | Some x \<Rightarrow> writeValue ansi (Some x))"

definition visitColumn :: "string \<Rightarrow> action" where
  "visitColumn c = WriteString c"

definition visitTable :: "ansi \<Rightarrow> Table option \<Rightarrow> action" where
  "visitTable ansi t =
     (case t of
        None \<Rightarrow> skip
      | Some t \<Rightarrow>
          if Table_Name t = [] \<and> Table_Alias t = [] then skip
          else if Table_Name t \<noteq> [] \<and> Table_Alias t \<noteq> []
          then Print [Table_Name t, '' '', ansi As, '' '', Table_Alias t]
          else if Table_Alias t = [] then WriteString (Table_Name t)
          else if Table_Name t = [] then WriteString (Table_Alias t)
          else skip)"

text \<open>
  \<^verbatim>\<open>visitSlice\<close>: integer and floating-point slices are written as literals, the elements of
  the other sequences are bound one by one, and anything that is no sequence is bound
  as it is.
\<close>

fun visitSlice :: "ansi \<Rightarrow> val option \<Rightarrow> action" where
  "visitSlice ansi (Some (VIntSlice v)) =
     run (separated (Comma ansi) (map (\<lambda>x. WriteString (Itoa x)) v))"
| "visitSlice ansi (Some (VInt64Slice v)) =
     run (separated (Comma ansi) (map (\<lambda>x. WriteString (Itoa x)) v))"
| "visitSlice ansi (Some (VFloat32Slice v)) =
     run (separated (Comma ansi) (map (\<lambda>x. WriteString x) v))"
| "visitSlice ansi (Some (VFloat64Slice v)) =
     run (separated (Comma ansi) (map (\<lambda>x. WriteString x) v))"
| "visitSlice ansi (Some (VStringSlice v)) =
     run (separated (Comma ansi) (map (\<lambda>x. writeValue ansi (Some (VString x))) v))"
| "visitSlice ansi (Some (VInterfaceSlice v)) =
     run (separated (Comma ansi) (map (\<lambda>x. writeValue ansi x) v))"
| "visitSlice ansi (Some (VSequence v)) =
     run (separated (Comma ansi) (map (\<lambda>x. writeValue ansi x) v))"
| "visitSlice ansi v = writeValue ansi v"

text \<open>
  The loop of \<^verbatim>\<open>visitConditions\<close> over the items, each paired with the visit of it:
  \<open>i\<close> is the index of the head item and \<open>deep\<close> the depth of parentheses before it.
\<close>

fun visitConditions_loop ::
  "ansi \<Rightarrow> nat \<Rightarrow> int \<Rightarrow> (Expression option \<times> action) list \<Rightarrow> action" where
  "visitConditions_loop ansi i deep [] = skip"
| "visitConditions_loop ansi i deep ((item, visit) # items) =
     (if item = None then visitConditions_loop ansi (i + 1) deep items
      else
        (let deep1 = (if item = Some CloseParentheses then deep - 1 else deep);
             deep2 = (if item = Some OpenParentheses then deep1 + 1 else deep1)
         in run [when (i > 0) (w_LineBreak ansi),
                 when (deep1 > 0) (WriteString (replicate (nat deep1) (CHR 0x09))),
                 visit,
                 visitConditions_loop ansi (i + 1) deep2 items]))"

text \<open>
  The methods of the compiler that call each other, each with its argument. The
  compiler is one function over them; \<open>visit ansi (visitSelect slt)\<close> is the call
  \<^verbatim>\<open>sc.visitSelect(slt)\<close>. \<^verbatim>\<open>visitQuery\<close>, \<^verbatim>\<open>visitInsert\<close>, \<^verbatim>\<open>visitUpdate\<close> and
  \<^verbatim>\<open>visitDelete\<close> are given the statement that the type assertion in their first line
  yields.
\<close>

datatype visit_method =
    visitExp "Expression option"
  | visitAggregate "Expression Aggregate option"
  | visitCondition "Expression Condition option"
  | visitIn "Expression Condition"
  | visitConditions "Expression Conditions option"
  | visitJoin "Expression Join option"
  | visitFrom "Expression From option"
  | visitWhere "Expression Where option"
  | visitField "Expression Field option"
  | visitSelect "Expression Select option"
  | visitHaving "Expression Having option"
  | visitGroupBy "Expression GroupBy option"
  | visitOrderBy "Expression OrderBy option"
  | visitQuery "Expression Query"
  | visitInsert "Expression Insert"
  | visitUpdate "Expression Update"
  | visitDelete "Expression Delete"

text \<open>The size of the tree that a call is given, for the termination of the compiler.\<close>

abbreviation size_exp :: "Expression option \<Rightarrow> nat" where
  "size_exp \<equiv> size_option size"

abbreviation size_conditions :: "Expression Conditions option \<Rightarrow> nat" where
  "size_conditions \<equiv> size_option (size_list size_exp)"

abbreviation size_orderby :: "Expression OrderBy option \<Rightarrow> nat" where
  "size_orderby \<equiv> size_option (size_list (size_prod size_exp (\<lambda>x. 0)))"

fun method_size :: "visit_method \<Rightarrow> nat" where
  "method_size (visitExp e) = size_exp e"
| "method_size (visitAggregate a) = size_option (size_prod (\<lambda>x. 0) size_exp) a"
| "method_size (visitCondition c) =
     size_option (size_prod size_exp (size_prod (\<lambda>x. 0) size_exp)) c"
| "method_size (visitIn c) = size_prod size_exp (size_prod (\<lambda>x. 0) size_exp) c"
| "method_size (visitConditions c) = size_conditions c"
| "method_size (visitJoin j) =
     size_option (size_prod (\<lambda>x. 0) (size_prod (\<lambda>x. 0) size_conditions)) j"
| "method_size (visitFrom f) =
     size_option (size_prod (\<lambda>x. 0) (size_prod (\<lambda>x. 0)
       (size_list (size_option (size_prod (\<lambda>x. 0) (size_prod (\<lambda>x. 0) size_conditions)))))) f"
| "method_size (visitWhere w) = size_option size_conditions w"
| "method_size (visitField f) = size_option (size_prod size_exp (\<lambda>x. 0)) f"
| "method_size (visitSelect slt) =
     size_option (size_list (size_option (size_prod size_exp (\<lambda>x. 0)))) slt"
| "method_size (visitHaving h) = size_option size_conditions h"
| "method_size (visitGroupBy g) = size_option (size_list size_exp) g"
| "method_size (visitOrderBy ob) = size_orderby ob"
| "method_size (visitQuery q) = size (QueryE q)"
| "method_size (visitInsert i) = size (InsertE i)"
| "method_size (visitUpdate u) = size (UpdateE u)"
| "method_size (visitDelete d) = size (DeleteE d)"

lemma size_exp_member: "x \<in> set xs \<Longrightarrow> size_exp x \<le> size_list size_exp xs"
  by (simp add: size_list_estimation')

lemma size_join_member:
  "x \<in> set xs \<Longrightarrow>
   size_option (size_prod (\<lambda>x. 0) (size_prod (\<lambda>x. 0) size_conditions)) x
     \<le> size_list (size_option (size_prod (\<lambda>x. 0) (size_prod (\<lambda>x. 0) size_conditions))) xs"
  by (simp add: size_list_estimation')

lemma size_set_member:
  "(a, b) \<in> set xs \<Longrightarrow> size_exp b < size_list (size_prod (\<lambda>x. 0) size_exp) xs"
  by (rule size_list_estimation [where x = "(a, b)"]) simp_all

function visit :: "ansi \<Rightarrow> visit_method \<Rightarrow> action" where
  "visit ansi (visitExp None) = skip"
| "visit ansi (visitExp (Some Zero)) = skip"
| "visit ansi (visitExp (Some (TextE t))) = raise (DoesntSupportThisExpressionType NodeText)"
| "visit ansi (visitExp (Some (ProcedureE p))) =
     raise (DoesntSupportThisExpressionType NodeProcedure)"
| "visit ansi (visitExp (Some (ParameterE p))) =
     raise (DoesntSupportThisExpressionType NodeParameter)"
| "visit ansi (visitExp (Some OutputE)) = raise (DoesntSupportThisExpressionType NodeOutput)"
| "visit ansi (visitExp (Some (NullE sql))) =
     (case sql of None \<Rightarrow> raise (ShouldBeRawSqler NodeNull) | Some x \<Rightarrow> WriteString x)"
| "visit ansi (visitExp (Some (SqlE sql))) =
     (case sql of None \<Rightarrow> raise (ShouldBeRawSqler NodeSql) | Some x \<Rightarrow> WriteString x)"
| "visit ansi (visitExp (Some (OperatorE sql))) =
     (case sql of None \<Rightarrow> raise (ShouldBeRawSqler NodeOperator) | Some x \<Rightarrow> WriteString x)"
| "visit ansi (visitExp (Some OpenParentheses)) = WriteString (ansi OpenParenthesesSql)"
| "visit ansi (visitExp (Some CloseParentheses)) = WriteString (ansi CloseParenthesesSql)"
| "visit ansi (visitExp (Some (InsertE i))) = visit ansi (visitInsert i)"
| "visit ansi (visitExp (Some (QueryE q))) = visit ansi (visitQuery q)"
| "visit ansi (visitExp (Some (UpdateE u))) = visit ansi (visitUpdate u)"
| "visit ansi (visitExp (Some (DeleteE d))) = visit ansi (visitDelete d)"
| "visit ansi (visitExp (Some (ValueE v))) = visitValue ansi v"
| "visit ansi (visitExp (Some (TableE t))) = visitTable ansi (Some t)"
| "visit ansi (visitExp (Some (ColumnE c))) = visitColumn c"
| "visit ansi (visitExp (Some (ConditionE c))) = visit ansi (visitCondition (Some c))"
| "visit ansi (visitExp (Some (AggregateE a))) = visit ansi (visitAggregate (Some a))"
| "visit ansi (visitExp (Some (SelectE slt))) = visit ansi (visitSelect (Some slt))"
| "visit ansi (visitExp (Some (FromE f))) = visit ansi (visitFrom (Some f))"
| "visit ansi (visitExp (Some (JoinE j))) = visit ansi (visitJoin (Some j))"
| "visit ansi (visitExp (Some (WhereE w))) = visit ansi (visitWhere (Some w))"
| "visit ansi (visitExp (Some (GroupByE g))) = visit ansi (visitGroupBy (Some g))"
| "visit ansi (visitExp (Some (HavingE h))) = visit ansi (visitHaving (Some h))"
| "visit ansi (visitExp (Some (OrderByE ob))) = visit ansi (visitOrderBy (Some ob))"
| "visit ansi (visitExp (Some OtherE)) = skip"

| "visit ansi (visitAggregate None) = skip"
| "visit ansi (visitAggregate (Some (name, exp))) =
     (if exp = None \<or> name = [] then skip
      else run [WriteString name, w_OpenParentheses ansi, visit ansi (visitExp exp),
           w_CloseParentheses ansi])"

| "visit ansi (visitCondition None) = skip"
| "visit ansi (visitCondition (Some (left, op, right))) =
     (if right = None \<and> left = None then WriteString (Operator_String ansi op)
      else if left = None then
        run [Print [Operator_String ansi op, ''(''], visit ansi (visitExp right), Print ['')'']]
      else if right = None then
        run [visit ansi (visitExp left), Print ['' '', Operator_String ansi op]]
      else if op = In \<or> op = NotIn then visit ansi (visitIn (left, op, right))
      else run [visit ansi (visitExp left), Print ['' '', Operator_String ansi op, '' ''],
           visit ansi (visitExp right)])"

| "visit ansi (visitIn (left, op, right)) =
     run [visit ansi (visitExp left),
          Print ['' '', Operator_String ansi op, '' ''],
          w_OpenParentheses ansi,
          (case right of
             Some (ValueE v) \<Rightarrow> if v \<noteq> None then visitSlice ansi v else skip
           | _ \<Rightarrow> visit ansi (visitExp right)),
          w_CloseParentheses ansi]"

| "visit ansi (visitConditions None) = skip"
| "visit ansi (visitConditions (Some items)) =
     run [visitConditions_loop ansi 0 0 (map (\<lambda>item. (item, visit ansi (visitExp item))) items),
          w_Blank ansi]"

| "visit ansi (visitJoin None) = skip"
| "visit ansi (visitJoin (Some (joinType, right, conditions))) =
     run [WriteString joinType, w_Blank ansi, visitTable ansi right, w_Blank ansi,
          (if \<not> isEmpty conditions then
             (case conditions of
           None \<Rightarrow> raise NilDereference
              | Some items \<Rightarrow>
             run (WriteString (ansi On) #
                  map (\<lambda>item. run [w_Blank ansi, visit ansi (visitExp item), w_Blank ansi])
                    items))
           else skip)]"

| "visit ansi (visitFrom None) = skip"
| "visit ansi (visitFrom (Some (table, tables, joins))) =
     run [Print [[CHR 0x0A], ansi From, '' ''],
          run (separated (Comma ansi)
            ((case table of None \<Rightarrow> [] | Some t \<Rightarrow> [visitTable ansi (Some t)])
             @ map (visitTable ansi) tables)),
          run (map (\<lambda>j. run [w_LineBreak ansi, visit ansi (visitJoin j)]) joins),
          w_Blank ansi]"

| "visit ansi (visitWhere None) = skip"
| "visit ansi (visitWhere (Some conditions)) =
     (if isEmpty conditions then skip
      else run [Print [[CHR 0x0A], ansi Where, [CHR 0x0A]],
           visit ansi (visitConditions conditions)])"

| "visit ansi (visitField None) = skip"
| "visit ansi (visitField (Some (exp, alias))) =
     run [visit ansi (visitExp exp),
          when (alias \<noteq> []) (run [Print ['' '', ansi As, '' ''], writeQuote alias])]"

| "visit ansi (visitSelect None) = WriteString (ansi WildcardAll)"
| "visit ansi (visitSelect (Some flds)) =
     (if length flds = 0 then WriteString (ansi WildcardAll)
      else run [run (separated (Comma ansi) (map (\<lambda>f. visit ansi (visitField f)) flds)),
           w_Blank ansi])"

| "visit ansi (visitHaving None) = skip"
| "visit ansi (visitHaving (Some conditions)) =
     (if isEmpty conditions then skip
      else run [Print [[CHR 0x0A], ansi Having, [CHR 0x0A]],
           visit ansi (visitConditions conditions)])"

| "visit ansi (visitGroupBy None) = skip"
| "visit ansi (visitGroupBy (Some flds)) =
     (if length flds \<le> 0 then skip
      else run [w_LineBreak ansi, WriteString (ansi GroupBy), w_Blank ansi,
           run (separated (Comma ansi) (map (\<lambda>item. visit ansi (visitExp item)) flds)),
           w_Blank ansi])"

| "visit ansi (visitOrderBy None) = skip"
| "visit ansi (visitOrderBy (Some flds)) =
     (if length flds \<le> 0 then skip
      else run [w_LineBreak ansi, WriteString (ansi OrderBy), w_Blank ansi,
           run (separated (Comma ansi)
                  (map (\<lambda>item. run [visit ansi (visitExp (fst item)), w_Blank ansi,
                                          WriteString (snd item)]) flds)),
           w_Blank ansi])"

| "visit ansi (visitQuery (isDistinct, select, frm, whr, groupBy, having, orderBy, offset, count)) =
     run [WriteString (ansi Select), w_Blank ansi,
          when isDistinct (run [WriteString (ansi Distinct), w_Blank ansi]),
          visit ansi (visitSelect select),
          visit ansi (visitFrom frm),
          visit ansi (visitWhere whr),
          visit ansi (visitGroupBy groupBy),
          (if (case groupBy of None \<Rightarrow> False | Some flds \<Rightarrow> length flds > 0)
           then visit ansi (visitHaving having) else skip),
          visit ansi (visitOrderBy orderBy),
          when (offset > 0 \<or> count > 0)
            (run [w_LineBreak ansi,
                  Print [ansi Limit, '' '', Itoa offset, '','', Itoa count]]),
          WriteString (ansi StatementSplit)]"

| "visit ansi (visitInsert (table, sets)) =
     run [Print [ansi InsertInto, ansi Blank, Table_Name table],
          w_OpenParentheses ansi,
          run (separated (Comma ansi) (map (\<lambda>st. visitColumn (fst st)) sets)),
          w_CloseParentheses ansi,
          w_LineBreak ansi,
          WriteString (ansi Values),
          w_OpenParentheses ansi,
          run (separated (Comma ansi) (map (\<lambda>st. visit ansi (visitExp (snd st))) sets)),
          w_CloseParentheses ansi,
          WriteString (ansi StatementSplit)]"

| "visit ansi (visitUpdate (table, sets, whr, orderBy, count)) =
     run [PrintSplit (ansi Blank) [ansi Update, Table_Name table, ansi Set, ansi LineBreak],
          run (separated (Comma ansi)
                 (map (\<lambda>st. run [visitColumn (fst st), WriteString (ansi Equals),
                                       visit ansi (visitExp (snd st))]) sets)),
          visit ansi (visitWhere whr),
          visit ansi (visitOrderBy orderBy),
          when (count > 0) (run [w_LineBreak ansi, PrintSplit '' '' [ansi Limit, Itoa count]]),
          WriteString (ansi StatementSplit)]"

| "visit ansi (visitDelete (table, whr, orderBy, count)) =
     run [PrintSplit (ansi Blank) [ansi Delete, ansi From, Table_Name table],
          visit ansi (visitWhere whr),
          visit ansi (visitOrderBy orderBy),
          when (count > 0) (run [w_LineBreak ansi, PrintSplit '' '' [ansi Limit, Itoa count]]),
          WriteString (ansi StatementSplit)]"
  by pat_completeness auto
termination
  by (relation "measure (\<lambda>(ansi, m). method_size m)")
     (auto simp: size_list_estimation' le_imp_less_Suc
        dest: size_exp_member size_join_member size_set_member)

text \<open>
  \<^verbatim>\<open>StatementCompiler.Compile\<close>. For a nil expression the code sets the error and goes on
  to \<^verbatim>\<open>exp.Node()\<close>, which panics.
\<close>

definition Compile_visit :: "ansi \<Rightarrow> Expression \<Rightarrow> action option" where
  "Compile_visit ansi exp =
     (case Node exp of
        NodeQuery \<Rightarrow>
          Some (case exp of QueryE q \<Rightarrow> visit ansi (visitQuery q) | _ \<Rightarrow> raise NilDereference)
      | NodeUpdate \<Rightarrow>
          Some (case exp of UpdateE u \<Rightarrow> visit ansi (visitUpdate u) | _ \<Rightarrow> raise NilDereference)
      | NodeInsert \<Rightarrow>
          Some (case exp of InsertE i \<Rightarrow> visit ansi (visitInsert i) | _ \<Rightarrow> raise NilDereference)
      | NodeDelete \<Rightarrow>
          Some (case exp of DeleteE d \<Rightarrow> visit ansi (visitDelete d) | _ \<Rightarrow> raise NilDereference)
      | _ \<Rightarrow> None)"

definition StatementCompiler_Compile ::
  "ansi \<Rightarrow> StatementCompiler \<Rightarrow> Expression option \<Rightarrow> failure + (string \<times> val option list)" where
  "StatementCompiler_Compile ansi sc exp =
     (case exp of
        None \<Rightarrow> Inl (Panic NilDereference)
      | Some e \<Rightarrow>
          (case Compile_visit ansi e of
             None \<Rightarrow> Inl (Error (DoesntSupportExpressionType (Node e)))
           | Some visitor \<Rightarrow>
               (case visitor (sc\<lparr>sc_w := [],
                                sc_placeHolder := ParameterPlaceHolder (sc_Dialecter sc)\<rparr>) of
                  Inl p \<Rightarrow> Inl (Panic p)
                | Inr s \<Rightarrow> Inr (sc_w s, sc_args s))))"

text \<open>\<^verbatim>\<open>AnsiDriver.Compile\<close>, the entry point of a registered compiler.\<close>

definition returned :: "compiled \<Rightarrow> failure + (string \<times> val option list)" where
  "returned r = (case r of Inl e \<Rightarrow> Inl (Error e) | Inr x \<Rightarrow> Inr x)"

definition AnsiDriver_Compile ::
  "ansi \<Rightarrow> dialecter \<Rightarrow> Expression option \<Rightarrow> failure + (string \<times> val option list)" where
  "AnsiDriver_Compile ansi d exp =
     (case exp of
        None \<Rightarrow> Inl (Error ExpressionIsNil)
      | Some e \<Rightarrow>
          (case Node e of
             NodeText \<Rightarrow>
               returned (compileText d (case e of TextE t \<Rightarrow> Some t | _ \<Rightarrow> None))
           | NodeProcedure \<Rightarrow>
               returned (compileProcedure (case e of ProcedureE p \<Rightarrow> Some p | _ \<Rightarrow> None))
           | NodeQuery \<Rightarrow> StatementCompiler_Compile ansi (NewStatementCompiler d) (Some e)
           | NodeUpdate \<Rightarrow> StatementCompiler_Compile ansi (NewStatementCompiler d) (Some e)
           | NodeInsert \<Rightarrow> StatementCompiler_Compile ansi (NewStatementCompiler d) (Some e)
           | NodeDelete \<Rightarrow> StatementCompiler_Compile ansi (NewStatementCompiler d) (Some e)
           | _ \<Rightarrow> Inl (Error (DoesSupportType (Node e)))))"

section \<open>The expression tree, as the specification reads it\<close>




text \<open>The text that the writer holds in \<open>s'\<close> beyond the text it holds in \<open>s\<close>.\<close>

definition written :: "StatementCompiler \<Rightarrow> StatementCompiler \<Rightarrow> string" where
  "written s s' = drop (length (sc_w s)) (sc_w s')"

text \<open>
  A state in which the placeholder counter of the numbered modes equals the number of
  the arguments bound so far, as in a new compiler.
\<close>

definition numbered :: "StatementCompiler \<Rightarrow> bool" where
  "numbered s = (mode_of (sc_Dialecter s) \<noteq> 0 \<longrightarrow> sc_paraIndex s = int (length (sc_args s)))"

text \<open>
  What a method leaves alone: the dialect and the placeholder token stay, the text
  written so far stays at the front of the text, and a numbered state stays numbered.
\<close>

definition frames :: "action \<Rightarrow> bool" where
  "frames a =
     (\<forall>s s'. a s = Inr s' \<longrightarrow>
        sc_Dialecter s' = sc_Dialecter s \<and> sc_placeHolder s' = sc_placeHolder s
        \<and> sc_w s' = sc_w s @ written s s' \<and> (numbered s \<longrightarrow> numbered s'))"


section \<open>Statements for concrete compilations\<close>

definition example_table :: Table where
  "example_table = \<lparr>Table_Name = ''t'', Table_Alias = []\<rparr>"


text \<open>A \<^verbatim>\<open>DELETE\<close> from \<open>t\<close> where \<open>c\<close> is in (or not in) the sequence \<open>v\<close>.\<close>

definition example_delete :: "operator \<Rightarrow> val \<Rightarrow> Expression" where
  "example_delete op v =
     DeleteE (example_table,
       Some (Some [Some (ConditionE (Some (ColumnE ''c''), op, Some (ValueE (Some v))))]),
       None, 0)"



section \<open>The template scanner\<close>

lemma IndexByte_absent: "c \<notin> set b \<Longrightarrow> IndexByte b c = - 1"
  by (simp add: IndexByte_def)

lemma takeWhile_until: "c \<notin> set l \<Longrightarrow> takeWhile (\<lambda>x. x \<noteq> c) (l @ c # r) = l"
  by (induction l) auto

lemma IndexByte_first: "c \<notin> set l \<Longrightarrow> IndexByte (l @ c # r) c = int (length l)"
  by (simp add: IndexByte_def takeWhile_until)

lemma loop_outside_end:
  "CHR ''{'' \<notin> set b \<Longrightarrow> compileText_loop d t 0 b buffer ps i = Inr (buffer @ b, ps)"
  by (subst compileText_loop.simps) (simp add: IndexByte_absent)

lemma loop_outside_open:
  "CHR ''{'' \<notin> set l \<Longrightarrow>
   compileText_loop d t 0 (l @ CHR ''{'' # r) buffer ps i = compileText_loop d t 1 r (buffer @ l) ps i"
  by (subst compileText_loop.simps) (simp add: IndexByte_first)

lemma loop_inside_unclosed:
  "CHR ''}'' \<notin> set b \<Longrightarrow> compileText_loop d t (Suc 0) b buffer ps i = Inl TextSqlFormatInvalid"
  by (subst compileText_loop.simps) (simp add: IndexByte_absent)

lemma loop_inside_empty:
  "compileText_loop d t (Suc 0) (CHR ''}'' # r) buffer ps i = Inl TextSqlFormatInvalid"
  by (subst compileText_loop.simps) (simp add: IndexByte_def)

lemma loop_inside_unknown:
  "CHR ''}'' \<notin> set n \<Longrightarrow> n \<noteq> [] \<Longrightarrow> FindParameter t (TrimSpace n) = None \<Longrightarrow>
   compileText_loop d t (Suc 0) (n @ CHR ''}'' # r) buffer ps i = Inl (CanNotFindParameter (TrimSpace n))"
  by (subst compileText_loop.simps) (simp add: IndexByte_first)

lemma loop_inside_known:
  "CHR ''}'' \<notin> set n \<Longrightarrow> n \<noteq> [] \<Longrightarrow> FindParameter t (TrimSpace n) = Some p \<Longrightarrow>
   compileText_loop d t (Suc 0) (n @ CHR ''}'' # r) buffer ps i =
   compileText_loop d t 0 r (buffer @ placeholder_text d i (TrimSpace n)) (ps @ [Parameter_Value p])
     (if mode_of d = 2 then i + 1 else i)"
  by (subst compileText_loop.simps) (simp add: IndexByte_first mode_of_def placeholder_text_def)

lemma rendered_unindexed:
  "mode_of d \<noteq> 2 \<Longrightarrow> rendered d i ps = rendered d j ps"
  by (induction ps arbitrary: i j) (auto simp: placeholder_text_def mode_of_def split: if_splits)

lemma loop_pieces:
  "\<forall>p\<in>set ps. resolves t p \<Longrightarrow>
   compileText_loop d t 0 (template_source ps @ rest) buffer args i =
   compileText_loop d t 0 rest (buffer @ rendered d i ps) (args @ bound_values t ps)
     (if mode_of d = 2 then i + int (length ps) else i)"
proof (induction ps arbitrary: buffer args i)
  case Nil
  then show ?case by (simp add: template_source_def bound_values_def)
next
  case (Cons p ps)
  obtain l n where p: "p = (l, n)" by (cases p)
  from Cons.prems p obtain q where
    l: "CHR ''{'' \<notin> set l" and n: "CHR ''}'' \<notin> set n" "n \<noteq> []"
    and q: "FindParameter t (TrimSpace n) = Some q"
    by (auto simp: resolves_def)
  from Cons.prems have rest: "\<forall>p\<in>set ps. resolves t p" by simp
  have src: "template_source (p # ps) @ rest = l @ CHR ''{'' # (n @ CHR ''}'' # (template_source ps @ rest))"
    by (simp add: template_source_def p)
  have vals: "bound_values t ((l, n) # ps) = Parameter_Value q # bound_values t ps"
    by (simp add: bound_values_def q)
  show ?case
  proof (cases "mode_of d = 2")
    case True
    then show ?thesis
      unfolding src
      by (simp add: loop_outside_open [OF l] loop_inside_known [OF n q] Cons.IH [OF rest] vals p
          add.assoc)
  next
    case False
    then have "rendered d i ps = rendered d (i + 1) ps" by (rule rendered_unindexed)
    with False show ?thesis
      unfolding src
      by (simp add: loop_outside_open [OF l] loop_inside_known [OF n q] Cons.IH [OF rest] vals p)
  qed
qed

lemma compileText_scan:
  assumes "Text_Parameters t \<noteq> []" and "Text_Sql t = template_source ps @ rest"
    and "Text_Sql t \<noteq> []" and "\<forall>p\<in>set ps. resolves t p"
  shows "compileText d (Some t) =
         compileText_loop d t 0 rest (rendered d 1 ps) (bound_values t ps)
           (if mode_of d = 2 then 1 + int (length ps) else 1)"
proof -
  have "compileText d (Some t) = compileText_loop d t 0 (Text_Sql t) [] [] 1"
    using assms(1,3) by (simp add: compileText_def)
  also have "\<dots> = compileText_loop d t 0 (template_source ps @ rest) [] [] 1"
    by (simp only: assms(2))
  also have "\<dots> = compileText_loop d t 0 rest (rendered d 1 ps) (bound_values t ps)
           (if mode_of d = 2 then 1 + int (length ps) else 1)"
    using loop_pieces [OF assms(4), of d rest "[]" "[]" 1] by simp
  finally show ?thesis .
qed

subsection \<open>Templates without placeholders\<close>

text \<open>
  C7, amended: for every template text whose SQL string is not empty and contains no
  opening brace, template compilation succeeds and returns the string unchanged with an
  empty argument list. (An empty SQL string is rejected with
  "text is nil or sql of text is empty".)
\<close>

theorem compileText_no_placeholder:
  "Text_Sql t \<noteq> [] \<Longrightarrow> CHR ''{'' \<notin> set (Text_Sql t) \<Longrightarrow>
   compileText d (Some t) = Inr (Text_Sql t, [])"
  by (simp add: compileText_def loop_outside_end)

theorem compileText_no_placeholder_witness:
  "Text_Sql \<lparr>Text_Sql = ''select 1'', Text_Parameters = [(''p'', \<lparr>Parameter_Name = ''p'',
       Parameter_Value = Some (VInt 1), Parameter_Dir = DirIn\<rparr>)]\<rparr> \<noteq> []
   \<and> CHR ''{'' \<notin> set ''select 1''
   \<and> compileText PostgreSQLDialecter (Some \<lparr>Text_Sql = ''select 1'', Text_Parameters = [(''p'',
       \<lparr>Parameter_Name = ''p'', Parameter_Value = Some (VInt 1), Parameter_Dir = DirIn\<rparr>)]\<rparr>)
     = Inr (''select 1'', [])"
  using compileText_no_placeholder [of "\<lparr>Text_Sql = ''select 1'', Text_Parameters = [(''p'',
       \<lparr>Parameter_Name = ''p'', Parameter_Value = Some (VInt 1), Parameter_Dir = DirIn\<rparr>)]\<rparr>"
       PostgreSQLDialecter]
  by simp

text \<open>
  C7 as stated fails on the empty SQL string: it contains no placeholder, and compilation
  returns an error.
\<close>

theorem compileText_empty_sql_counterexample:
  "CHR ''{'' \<notin> set (Text_Sql \<lparr>Text_Sql = [], Text_Parameters = []\<rparr>)
   \<and> compileText AnsiDialecter (Some \<lparr>Text_Sql = [], Text_Parameters = []\<rparr>) = Inl TextIsNilOrEmpty"
  by (simp add: compileText_def)

subsection \<open>Unterminated braces\<close>

text \<open>
  C8, amended: for every template text with a non-empty parameter set whose SQL string,
  after any number of placeholders that resolve, opens a brace that no closing brace
  follows, template compilation fails with the error "text sql format is invalid".
\<close>

theorem compileText_unterminated_brace:
  assumes "Text_Parameters t \<noteq> []"
    and "Text_Sql t = template_source ps @ l @ CHR ''{'' # r"
    and "\<forall>p\<in>set ps. resolves t p"
    and "CHR ''{'' \<notin> set l" and "CHR ''}'' \<notin> set r"
  shows "compileText d (Some t) = Inl TextSqlFormatInvalid"
proof -
  have "Text_Sql t \<noteq> []" using assms(2) by simp
  with assms show ?thesis
    by (simp add: compileText_scan [where rest = "l @ CHR ''{'' # r"] loop_outside_open
        loop_inside_unclosed)
qed

lemma TrimSpace_p: "TrimSpace ''p'' = ''p''"
  by code_simp

theorem compileText_unterminated_brace_witness:
  "compileText AnsiDialecter (Some \<lparr>Text_Sql = ''a {p} b {q'', Text_Parameters = [(''p'',
       \<lparr>Parameter_Name = ''p'', Parameter_Value = Some (VInt 1), Parameter_Dir = DirIn\<rparr>)]\<rparr>)
     = Inl TextSqlFormatInvalid"
  using compileText_unterminated_brace [of "\<lparr>Text_Sql = ''a {p} b {q'', Text_Parameters = [(''p'',
       \<lparr>Parameter_Name = ''p'', Parameter_Value = Some (VInt 1), Parameter_Dir = DirIn\<rparr>)]\<rparr>"
       "[(''a '', ''p'')]" "'' b ''" "''q''" AnsiDialecter]
  by (simp add: template_source_def resolves_def FindParameter_def TrimSpace_p)

text \<open>
  C8 as stated fails when the template has no parameters: the string is returned as it
  is, the unterminated brace included.
\<close>

theorem compileText_unterminated_brace_counterexample:
  "compileText AnsiDialecter (Some \<lparr>Text_Sql = ''a {p'', Text_Parameters = []\<rparr>)
     = Inr (''a {p'', [])"
  by (simp add: compileText_def)

lemma compileText_unknown:
  assumes "Text_Parameters t \<noteq> []"
    and "Text_Sql t = template_source ps @ l @ CHR ''{'' # n @ CHR ''}'' # r"
    and "\<forall>p\<in>set ps. resolves t p"
    and "CHR ''{'' \<notin> set l" and "CHR ''}'' \<notin> set n" and "n \<noteq> []"
    and "FindParameter t (TrimSpace n) = None"
  shows "compileText d (Some t) = Inl (CanNotFindParameter (TrimSpace n))"
proof -
  have "Text_Sql t \<noteq> []" using assms(2) by simp
  with assms show ?thesis
    by (simp add: compileText_scan [where rest = "l @ CHR ''{'' # n @ CHR ''}'' # r"]
        loop_outside_open loop_inside_unknown)
qed


subsection \<open>The example of the specification and unknown parameters\<close>

text \<open>
  C6, amended: compiling "select * from t where c > {p}" with \<open>p\<close> bound to 1 yields
  "select * from t where c >  ? " under the ANSI dialect (the ANSI placeholder is the
  question mark with a blank on each side) and "select * from t where c > $1" under the
  PostgreSQL dialect, both with the argument list [1]; and a template with a non-empty
  parameter set whose first placeholder that does not resolve names an identifier absent
  from the parameter set fails with the error "text can not find parameter:" naming that
  identifier.
\<close>

theorem compileText_example:
  "compileText AnsiDialecter (Some example_text)
     = Inr (''select * from t where c >  ? '', [Some (VInt 1)])
   \<and> compileText PostgreSQLDialecter (Some example_text)
     = Inr (''select * from t where c > $1'', [Some (VInt 1)])
   \<and> (\<forall>d t ps l n r.
        Text_Parameters t \<noteq> [] \<and> Text_Sql t = template_source ps @ l @ CHR ''{'' # n @ CHR ''}'' # r
        \<and> (\<forall>p\<in>set ps. resolves t p) \<and> CHR ''{'' \<notin> set l \<and> CHR ''}'' \<notin> set n \<and> n \<noteq> []
        \<and> FindParameter t (TrimSpace n) = None
        \<longrightarrow> compileText d (Some t) = Inl (CanNotFindParameter (TrimSpace n)))"
proof (intro conjI allI impI)
  show "compileText AnsiDialecter (Some example_text)
     = Inr (''select * from t where c >  ? '', [Some (VInt 1)])"
    by code_simp
  show "compileText PostgreSQLDialecter (Some example_text)
     = Inr (''select * from t where c > $1'', [Some (VInt 1)])"
    by code_simp
next
  fix d t ps l n r
  assume "Text_Parameters t \<noteq> [] \<and> Text_Sql t = template_source ps @ l @ CHR ''{'' # n @ CHR ''}'' # r
        \<and> (\<forall>p\<in>set ps. resolves t p) \<and> CHR ''{'' \<notin> set l \<and> CHR ''}'' \<notin> set n \<and> n \<noteq> []
        \<and> FindParameter t (TrimSpace n) = None"
  then show "compileText d (Some t) = Inl (CanNotFindParameter (TrimSpace n))"
    by (intro compileText_unknown) auto
qed

lemma TrimSpace_q: "TrimSpace ''q'' = ''q''"
  by code_simp

theorem compileText_example_witness:
  "compileText AnsiDialecter (Some (example_text\<lparr>Text_Sql := ''a {p} b {q} c''\<rparr>))
     = Inl (CanNotFindParameter ''q'')"
proof -
  have "Text_Parameters (example_text\<lparr>Text_Sql := ''a {p} b {q} c''\<rparr>) \<noteq> []
     \<and> Text_Sql (example_text\<lparr>Text_Sql := ''a {p} b {q} c''\<rparr>)
         = template_source [(''a '', ''p'')] @ '' b '' @ CHR ''{'' # ''q'' @ CHR ''}'' # '' c''
     \<and> (\<forall>p\<in>set [(''a '', ''p'')]. resolves (example_text\<lparr>Text_Sql := ''a {p} b {q} c''\<rparr>) p)
     \<and> CHR ''{'' \<notin> set '' b '' \<and> CHR ''}'' \<notin> set ''q'' \<and> ''q'' \<noteq> []
     \<and> FindParameter (example_text\<lparr>Text_Sql := ''a {p} b {q} c''\<rparr>) (TrimSpace ''q'') = None"
    by (simp add: example_text_def template_source_def resolves_def FindParameter_def
        TrimSpace_p TrimSpace_q)
  with compileText_example
  have "compileText AnsiDialecter (Some (example_text\<lparr>Text_Sql := ''a {p} b {q} c''\<rparr>))
     = Inl (CanNotFindParameter (TrimSpace ''q''))"
    by blast
  then show ?thesis by (simp only: TrimSpace_q)
qed

text \<open>
  C6 as stated fails for the ANSI dialect: the query string is not
  "select * from t where c > ?".
\<close>

theorem compileText_example_counterexample:
  "compileText AnsiDialecter (Some \<lparr>Text_Sql = ''select * from t where c > {p}'',
     Text_Parameters = [(''p'', \<lparr>Parameter_Name = ''p'', Parameter_Value = Some (VInt 1),
       Parameter_Dir = DirIn\<rparr>)]\<rparr>)
   \<noteq> Inr (''select * from t where c > ?'', [Some (VInt 1)])"
  by code_simp

subsection \<open>Empty and blank placeholders\<close>

text \<open>
  C10, amended: for every template text with a non-empty parameter set whose SQL string,
  after any number of placeholders that resolve, holds an opening brace immediately
  followed by a closing brace, template compilation fails with the error
  "text sql format is invalid" and looks no name up; a placeholder of white space only
  is looked up as the empty name: compilation fails with "text can not find parameter:"
  when the empty name is unbound, and substitutes the placeholder when it is bound.
\<close>

theorem compileText_empty_braces:
  assumes "Text_Parameters t \<noteq> []" and "\<forall>p\<in>set ps. resolves t p" and "CHR ''{'' \<notin> set l"
  shows "(Text_Sql t = template_source ps @ l @ ''{}'' @ r \<longrightarrow>
            compileText d (Some t) = Inl TextSqlFormatInvalid)
       \<and> (Text_Sql t = template_source ps @ l @ CHR ''{'' # ws @ CHR ''}'' # r \<and> ws \<noteq> []
            \<and> CHR ''}'' \<notin> set ws \<and> TrimSpace ws = [] \<longrightarrow>
            (case FindParameter t [] of
               None \<Rightarrow> compileText d (Some t) = Inl (CanNotFindParameter [])
             | Some p \<Rightarrow> CHR ''{'' \<notin> set r \<longrightarrow>
                 compileText d (Some t)
                   = Inr (rendered d 1 ps @ l
                            @ placeholder_text d (if mode_of d = 2 then 1 + int (length ps) else 1) []
                            @ r,
                          bound_values t ps @ [Parameter_Value p])))"
proof (intro conjI impI)
  assume sql: "Text_Sql t = template_source ps @ l @ ''{}'' @ r"
  then have "Text_Sql t \<noteq> []" by simp
  with assms sql show "compileText d (Some t) = Inl TextSqlFormatInvalid"
    by (simp add: compileText_scan [where rest = "l @ ''{}'' @ r"] loop_outside_open
        loop_inside_empty)
next
  assume a: "Text_Sql t = template_source ps @ l @ CHR ''{'' # ws @ CHR ''}'' # r \<and> ws \<noteq> []
            \<and> CHR ''}'' \<notin> set ws \<and> TrimSpace ws = []"
  then have ne: "Text_Sql t \<noteq> []" by simp
  show "case FindParameter t [] of
               None \<Rightarrow> compileText d (Some t) = Inl (CanNotFindParameter [])
             | Some p \<Rightarrow> CHR ''{'' \<notin> set r \<longrightarrow>
                 compileText d (Some t)
                   = Inr (rendered d 1 ps @ l
                            @ placeholder_text d (if mode_of d = 2 then 1 + int (length ps) else 1) []
                            @ r,
                          bound_values t ps @ [Parameter_Value p])"
  proof (cases "FindParameter t []")
    case None
    with a assms have "compileText d (Some t) = Inl (CanNotFindParameter (TrimSpace ws))"
      by (intro compileText_unknown [where ps = ps and l = l and r = r]) auto
    with None a show ?thesis by simp
  next
    case (Some p)
    have "compileText d (Some t) =
         compileText_loop d t 0 (l @ CHR ''{'' # ws @ CHR ''}'' # r) (rendered d 1 ps)
           (bound_values t ps) (if mode_of d = 2 then 1 + int (length ps) else 1)"
      using assms a ne by (intro compileText_scan) auto
    with Some a assms(3) show ?thesis
      by (auto simp: loop_outside_open loop_inside_known loop_outside_end)
  qed
qed

lemma TrimSpace_blank: "TrimSpace '' '' = []"
  by code_simp

theorem compileText_empty_braces_witness:
  "compileText AnsiDialecter (Some (example_text\<lparr>Text_Sql := ''a {p} b {} c''\<rparr>))
     = Inl TextSqlFormatInvalid
   \<and> compileText AnsiDialecter (Some (example_text\<lparr>Text_Sql := ''a {p} b { } c''\<rparr>))
     = Inl (CanNotFindParameter [])"
proof -
  have r: "\<forall>p\<in>set [(''a '', ''p'')]. resolves (example_text\<lparr>Text_Sql := ''a {p} b {} c''\<rparr>) p"
    "\<forall>p\<in>set [(''a '', ''p'')]. resolves (example_text\<lparr>Text_Sql := ''a {p} b { } c''\<rparr>) p"
    by (simp_all add: example_text_def resolves_def FindParameter_def TrimSpace_p)
  have "compileText AnsiDialecter (Some (example_text\<lparr>Text_Sql := ''a {p} b {} c''\<rparr>))
     = Inl TextSqlFormatInvalid"
    using compileText_empty_braces [OF _ r(1), where l = "'' b ''" and r = "'' c''"
        and d = AnsiDialecter]
    by (simp add: example_text_def template_source_def)
  moreover have "compileText AnsiDialecter (Some (example_text\<lparr>Text_Sql := ''a {p} b { } c''\<rparr>))
     = Inl (CanNotFindParameter [])"
    using compileText_empty_braces [OF _ r(2), where l = "'' b ''" and r = "'' c''"
        and d = AnsiDialecter and ws = "'' ''"]
    by (simp add: example_text_def template_source_def TrimSpace_blank FindParameter_def)
  ultimately show ?thesis by simp
qed

text \<open>
  C10 as stated fails when the template has no parameters: the string is returned as it
  is.
\<close>

theorem compileText_empty_braces_counterexample:
  "compileText AnsiDialecter (Some \<lparr>Text_Sql = ''{}'', Text_Parameters = []\<rparr>) = Inr (''{}'', [])"
  by (simp add: compileText_def)

section \<open>Procedure calls\<close>

lemma compileProcedure_in_out:
  "name \<noteq> [] \<Longrightarrow>
   compileProcedure (Some \<lparr>Procedure_Name = name,
       Procedure_Parameters =
         [\<lparr>Parameter_Name = a, Parameter_Value = v, Parameter_Dir = DirIn\<rparr>,
          \<lparr>Parameter_Name = b, Parameter_Value = w, Parameter_Dir = DirOut\<rparr>],
       Procedure_ReturnName = []\<rparr>)
   = Inr (''CALL '' @ name @ '' ( ?, @'' @ b @ '' );'' @ [CHR 0x0A] @ ''SELECT @'' @ b @ ''; '', [v])"
  by (simp add: compileProcedure_def IsOut_def)

text \<open>
  C5: with a designated return-parameter name the specification prefixes the call with
  \<open>SET @returnName =\<close>. The code writes \<open>SET @\<close>, the return name and then the procedure
  name with nothing between them: for the procedure \<open>f\<close> with the return parameter \<open>r\<close> the
  call reads \<open>SET @rf (  );\<close>.
\<close>

theorem compileProcedure_return_name:
  "compileProcedure (Some \<lparr>Procedure_Name = ''f'',
       Procedure_Parameters =
         [\<lparr>Parameter_Name = ''r'', Parameter_Value = None, Parameter_Dir = DirReturn\<rparr>],
       Procedure_ReturnName = ''r''\<rparr>)
   = Inr (''SET @rf (  );'' @ [CHR 0x0A] @ ''SELECT @r; '', [])"
  by (simp add: compileProcedure_def IsOut_def)

section \<open>The statement compiler: what every method preserves\<close>

declare run.simps [simp del]


lemma written_same [simp]: "written s s = []"
  by (simp add: written_def)

lemma written_append: "sc_w s' = sc_w s @ t \<Longrightarrow> written s s' = t"
  by (simp add: written_def)

lemma framesI:
  assumes "\<And>s s'. a s = Inr s' \<Longrightarrow>
    sc_Dialecter s' = sc_Dialecter s \<and> sc_placeHolder s' = sc_placeHolder s
    \<and> (\<exists>t. sc_w s' = sc_w s @ t) \<and> (numbered s \<longrightarrow> numbered s')"
  shows "frames a"
  unfolding frames_def
proof (intro allI impI)
  fix s s'
  assume "a s = Inr s'"
  from assms [OF this] obtain t where t: "sc_w s' = sc_w s @ t"
    and rest: "sc_Dialecter s' = sc_Dialecter s" "sc_placeHolder s' = sc_placeHolder s"
      "numbered s \<longrightarrow> numbered s'"
    by blast
  from t have "written s s' = t" by (rule written_append)
  with t rest show "sc_Dialecter s' = sc_Dialecter s \<and> sc_placeHolder s' = sc_placeHolder s
        \<and> sc_w s' = sc_w s @ written s s' \<and> (numbered s \<longrightarrow> numbered s')"
    by simp
qed






lemma frames_writeValue: "frames (writeValue ansi v)"
  by (rule framesI)
     (auto simp: writeValue_def WriteString_def numbered_def Let_def split: option.splits if_splits)














declare visit.simps [simp del]




section \<open>The statement compiler: the arguments that a method binds\<close>





















section \<open>The statement compiler: all methods\<close>




section \<open>The statement compiler: its results\<close>


lemma WriteString_Inr: "WriteString x s = Inr s' \<longleftrightarrow> s' = s\<lparr>sc_w := sc_w s @ x\<rparr>"
  by (auto simp: WriteString_def)




subsection \<open>Bound arguments\<close>




subsection \<open>Sequences on the right of \<^verbatim>\<open>IN\<close>\<close>

text \<open>
  C4, amended: for every condition with a left side, whose operator is \<^verbatim>\<open>IN\<close> or
  \<^verbatim>\<open>NOT IN\<close> and whose right side is a \<^verbatim>\<open>Value\<close> holding a sequence of three integers
  (\<^verbatim>\<open>[]int\<close>), the compiler writes, after the left side, a blank, the operator, a blank
  and the three integers in decimal, in sequence order, separated by commas and in
  parentheses, and binds no argument for them; for the empty sequence it writes the
  operator and an empty pair of parentheses, and binds no argument.
\<close>

theorem visitCondition_in_int_slice:
  assumes "left \<noteq> None" and "op = In \<or> op = NotIn"
    and "visit ansi (visitExp left) s = Inr s1"
  shows "visit ansi (visitCondition
             (Some (left, op, Some (ValueE (Some (VIntSlice [x, y, z])))))) s
           = Inr (s1\<lparr>sc_w := sc_w s1 @ '' '' @ Operator_String ansi op @ '' ''
                    @ ansi WOpenParentheses @ Itoa x @ ansi WComma @ Itoa y @ ansi WComma
                    @ Itoa z @ ansi WCloseParentheses\<rparr>)
       \<and> visit ansi (visitCondition (Some (left, op, Some (ValueE (Some (VIntSlice [])))))) s
           = Inr (s1\<lparr>sc_w := sc_w s1 @ '' '' @ Operator_String ansi op @ '' ''
                    @ ansi WOpenParentheses @ ansi WCloseParentheses\<rparr>)"
  using assms
  by (auto simp: visit.simps(32,33) run.simps Print_def WriteString_def w_OpenParentheses_def
      w_CloseParentheses_def Comma_def)

theorem visitCondition_in_int_slice_witness:
  "visit spec_ansi (visitCondition
       (Some (Some (ColumnE ''c''), NotIn, Some (ValueE (Some (VIntSlice [1, 2, 3]))))))
     (NewStatementCompiler PostgreSQLDialecter)
     = Inr ((NewStatementCompiler PostgreSQLDialecter)\<lparr>sc_w := ''c NOT IN (1,2,3)''\<rparr>)
   \<and> visit spec_ansi (visitCondition
       (Some (Some (ColumnE ''c''), NotIn, Some (ValueE (Some (VIntSlice []))))))
     (NewStatementCompiler PostgreSQLDialecter)
     = Inr ((NewStatementCompiler PostgreSQLDialecter)\<lparr>sc_w := ''c NOT IN ()''\<rparr>)"
proof -
  have left: "visit spec_ansi (visitExp (Some (ColumnE ''c''))) (NewStatementCompiler PostgreSQLDialecter)
     = Inr ((NewStatementCompiler PostgreSQLDialecter)\<lparr>sc_w := ''c''\<rparr>)"
    by (simp add: visit.simps(18) visitColumn_def WriteString_def NewStatementCompiler_def)
  have itoa: "Itoa 1 = ''1''" "Itoa 2 = ''2''" "Itoa 3 = ''3''"
    by code_simp+
  from visitCondition_in_int_slice [where left = "Some (ColumnE ''c'')" and op = NotIn
      and ansi = spec_ansi and x = 1 and y = 2 and z = 3, OF _ _ left]
  show ?thesis by (simp add: itoa NewStatementCompiler_def)
qed

text \<open>
  C4 as stated fails: the three integers of the sequence are written into the
  statement, and the argument list of the compiled statement is empty.
\<close>

theorem visitCondition_in_int_slice_counterexample:
  "AnsiDriver_Compile spec_ansi AnsiDialecter (Some (example_delete In (VIntSlice [1, 2, 3])))
     = Inr (''DELETE FROM t'' @ [CHR 0x0A] @ ''WHERE'' @ [CHR 0x0A] @ ''c IN (1,2,3) ;'', [])"
  by code_simp

subsection \<open>Malformed input\<close>

text \<open>
  C3, amended: a nil expression passed to \<^verbatim>\<open>AnsiDriver.Compile\<close> returns the error
  "compile expression is nil"; an expression of a kind that the entry point has no
  compiler for returns a structured error that names the kind, from
  \<^verbatim>\<open>AnsiDriver.Compile\<close> and from \<^verbatim>\<open>StatementCompiler.Compile\<close>; a \<^verbatim>\<open>Text\<close>, \<^verbatim>\<open>Procedure\<close>,
  \<^verbatim>\<open>Parameter\<close> or \<^verbatim>\<open>Output\<close> node that \<^verbatim>\<open>visitExp\<close> reaches mid-tree panics with
  "doesn't support this expression type:" and the kind, and the panic leaves the
  top-level compile call, as for an insert whose value is such a node.
\<close>

theorem Compile_malformed:
  "AnsiDriver_Compile ansi d None = Inl (Error ExpressionIsNil)
   \<and> (Node e \<notin> {NodeText, NodeProcedure, NodeQuery, NodeUpdate, NodeInsert, NodeDelete} \<longrightarrow>
        AnsiDriver_Compile ansi d (Some e) = Inl (Error (DoesSupportType (Node e))))
   \<and> (Node e \<notin> {NodeQuery, NodeUpdate, NodeInsert, NodeDelete} \<longrightarrow>
        StatementCompiler_Compile ansi sc (Some e)
          = Inl (Error (DoesntSupportExpressionType (Node e))))
   \<and> (Node e \<in> {NodeText, NodeProcedure, NodeParameter, NodeOutput} \<longrightarrow>
        visit ansi (visitExp (Some e)) s = Inl (DoesntSupportThisExpressionType (Node e))
        \<and> AnsiDriver_Compile ansi d (Some (InsertE (table, [(c, Some e)])))
            = Inl (Panic (DoesntSupportThisExpressionType (Node e))))"
proof (intro conjI impI)
  show "AnsiDriver_Compile ansi d None = Inl (Error ExpressionIsNil)"
    by (simp add: AnsiDriver_Compile_def)
next
  assume "Node e \<notin> {NodeText, NodeProcedure, NodeQuery, NodeUpdate, NodeInsert, NodeDelete}"
  then show "AnsiDriver_Compile ansi d (Some e) = Inl (Error (DoesSupportType (Node e)))"
    by (cases e) (simp_all add: AnsiDriver_Compile_def)
next
  assume "Node e \<notin> {NodeQuery, NodeUpdate, NodeInsert, NodeDelete}"
  then show "StatementCompiler_Compile ansi sc (Some e)
          = Inl (Error (DoesntSupportExpressionType (Node e)))"
    by (cases e) (simp_all add: StatementCompiler_Compile_def Compile_visit_def)
next
  assume kind: "Node e \<in> {NodeText, NodeProcedure, NodeParameter, NodeOutput}"
  then show panic: "visit ansi (visitExp (Some e)) s = Inl (DoesntSupportThisExpressionType (Node e))"
    for s
    by (cases e) (simp_all add: visit.simps raise_def)
  show "AnsiDriver_Compile ansi d (Some (InsertE (table, [(c, Some e)])))
            = Inl (Panic (DoesntSupportThisExpressionType (Node e)))"
    by (simp add: AnsiDriver_Compile_def StatementCompiler_Compile_def Compile_visit_def
        visit.simps(53) run.simps Print_def WriteString_def w_OpenParentheses_def
        w_CloseParentheses_def w_LineBreak_def visitColumn_def panic)
qed

theorem Compile_malformed_witness:
  "Node (ValueE None) \<notin> {NodeText, NodeProcedure, NodeQuery, NodeUpdate, NodeInsert, NodeDelete}
   \<and> AnsiDriver_Compile spec_ansi AnsiDialecter (Some (ValueE None))
       = Inl (Error (DoesSupportType NodeValue))
   \<and> Node (ValueE None) \<notin> {NodeQuery, NodeUpdate, NodeInsert, NodeDelete}
   \<and> StatementCompiler_Compile spec_ansi (NewStatementCompiler AnsiDialecter) (Some (ValueE None))
       = Inl (Error (DoesntSupportExpressionType NodeValue))
   \<and> Node OutputE \<in> {NodeText, NodeProcedure, NodeParameter, NodeOutput}
   \<and> visit spec_ansi (visitExp (Some OutputE)) (NewStatementCompiler AnsiDialecter)
       = Inl (DoesntSupportThisExpressionType NodeOutput)
   \<and> AnsiDriver_Compile spec_ansi AnsiDialecter (Some (InsertE (example_table, [(''a'', Some OutputE)])))
       = Inl (Panic (DoesntSupportThisExpressionType NodeOutput))"
  using Compile_malformed [of spec_ansi AnsiDialecter "ValueE None" "NewStatementCompiler AnsiDialecter"]
    Compile_malformed [of spec_ansi AnsiDialecter OutputE _ "NewStatementCompiler AnsiDialecter"
      example_table "''a''"]
  by simp

text \<open>
  C3 as stated fails: a \<^verbatim>\<open>Parameter\<close> node as a field of a query panics, and the panic
  leaves the top-level compile call.
\<close>

theorem Compile_malformed_counterexample:
  "AnsiDriver_Compile spec_ansi AnsiDialecter
     (Some (QueryE (False,
        Some [Some (Some (ParameterE \<lparr>Parameter_Name = ''p'', Parameter_Value = Some (VInt 1),
                                      Parameter_Dir = DirIn\<rparr>), [])],
        Some (Some example_table, [], []), None, None, None, None, 0, 0)))
   = Inl (Panic (DoesntSupportThisExpressionType NodeParameter))"
  by code_simp

subsection \<open>The clauses of a query\<close>






subsection \<open>The form of the placeholders\<close>


lemma writeValue_keeps_numbered:
  "numbered s \<Longrightarrow> writeValue ansi v s = Inr s' \<Longrightarrow> numbered s'"
  using frames_writeValue [of ansi v] by (simp add: frames_def)









end
